theory Spec2Isabelle
  imports Complex_Main "HOL-Library.Word"
begin

section \<open>Harbour Pools passport: a shallow embedding of app.js and data.js\<close>

text \<open>
  The controller of the application (app.js) keeps its session state in module-level
  variables and mutates them from event handlers. The embedding passes that state
  explicitly: every handler is a function from the state to an outcome, which is the
  state it leaves behind together with the exception it raised, if any. An exception in
  JavaScript does not undo the assignments made before it, so a raising handler still
  returns the state it reached.

  What the model keeps of the page: the content of the pool list, the cards of the
  passport grid with its page label and its two paging buttons, and the pool the map is
  centred on. Markup strings, style classes, the badge text in the header and the delayed
  resize of the map widget are not represented. The elements that app.js dereferences
  without a test are taken to exist, as the page of the application provides them; the
  passport grid, which \<open>renderStamps\<close> tests for, is a flag of the state.
\<close>

subsection \<open>Strings and numbers of the source language\<close>

text \<open>
  A JavaScript string is a sequence of 16-bit code units. \<open>js\<close> embeds a literal whose
  characters are below 256.
\<close>

type_synonym jschar = "16 word"
type_synonym jsstring = "jschar list"

definition js :: "string \<Rightarrow> jsstring" where
  "js s = map (\<lambda>c. of_nat (of_char c)) s"

text \<open>
  White space and line terminators of ECMAScript, the code units that
  \<open>String.prototype.trim\<close> strips from both ends.
\<close>

definition isWhiteSpace :: "jschar \<Rightarrow> bool" where
  "isWhiteSpace c \<longleftrightarrow>
     c = 0x0009 \<or> c = 0x000A \<or> c = 0x000B \<or> c = 0x000C \<or> c = 0x000D \<or> c = 0x0020 \<or>
     c = 0x00A0 \<or> c = 0x1680 \<or> (0x2000 \<le> c \<and> c \<le> 0x200A) \<or> c = 0x2028 \<or>
     c = 0x2029 \<or> c = 0x202F \<or> c = 0x205F \<or> c = 0x3000 \<or> c = 0xFEFF"

definition trim :: "jsstring \<Rightarrow> jsstring" where
  "trim s = rev (dropWhile isWhiteSpace (rev (dropWhile isWhiteSpace s)))"

text \<open>
  The remainder operator \<open>%\<close> truncates: the result has the sign of the dividend.
  Indices and page numbers are integers; the divisor is never 0 where the source
  applies \<open>%\<close>, since \<open>selectIndex\<close> returns before it on an empty pool list.
\<close>

definition js_rem :: "int \<Rightarrow> int \<Rightarrow> int" where
  "js_rem a b = sgn a * (\<bar>a\<bar> mod \<bar>b\<bar>)"

text \<open>Array indexing: an index outside the array reads \<open>undefined\<close>.\<close>

definition at_index :: "'a list \<Rightarrow> int \<Rightarrow> 'a option" where
  "at_index xs i = (if 0 \<le> i \<and> i < int (length xs) then Some (xs ! nat i) else None)"

subsection \<open>Data model\<close>

record pool =
  name :: jsstring
  lat :: real
  lng :: real

record visit_record =
  done_flag :: bool
  date :: "jsstring option"

text \<open>The entries of the visited map, as storage keeps them.\<close>

type_synonym visited_map = "jsstring \<rightharpoonup> visit_record"

text \<open>
  In app.js the visited map is a plain object used as a dictionary: \<open>visited[name]\<close>
  reads a property and \<open>visited[name] = {...}\<close> writes one. A plain object has its own
  properties, here the entries, and a prototype from which it inherits the others. The
  prototype is \<open>Object.prototype\<close> (\<open>proto = None\<close>) until an assignment to the name
  \<open>__proto__\<close> replaces it by the record assigned (\<open>proto = Some r\<close>); the prototype of
  such a record is \<open>Object.prototype\<close> again.
\<close>

record visited_obj =
  own :: visited_map
  proto :: "visit_record option"

text \<open>The object literal \<open>{}\<close>.\<close>

definition emptyVisited :: visited_obj where
  "emptyVisited = \<lparr>own = Map.empty, proto = None\<rparr>"

text \<open>
  What reading a property can yield: a record, a field of the record that has become the
  prototype, a member of \<open>Object.prototype\<close>, that object itself, or \<open>undefined\<close>.
\<close>

datatype jsvalue =
  JUndefined
| JNull
| JBool bool
| JString jsstring
| JRecord visit_record
| JBuiltin jsstring
| JObjectPrototype

text \<open>The data properties of \<open>Object.prototype\<close>; all of them are functions and writable.\<close>

definition objectPrototypeKeys :: "jsstring list" where
  "objectPrototypeKeys =
     map js [''constructor'', ''__defineGetter__'', ''__defineSetter__'', ''hasOwnProperty'',
       ''__lookupGetter__'', ''__lookupSetter__'', ''isPrototypeOf'', ''propertyIsEnumerable'',
       ''toString'', ''valueOf'', ''toLocaleString'']"

text \<open>
  \<open>visited[k]\<close>: the own property if there is one, else what the prototype chain gives.
  The accessor \<open>__proto__\<close> of \<open>Object.prototype\<close> returns the prototype of the object.
\<close>

definition getProp :: "visited_obj \<Rightarrow> jsstring \<Rightarrow> jsvalue" where
  "getProp v k =
     (case own v k of
        Some r \<Rightarrow> JRecord r
      | None \<Rightarrow>
          (case proto v of
             Some r \<Rightarrow>
               if k = js ''done'' then JBool (done_flag r)
               else if k = js ''date'' then (case date r of None \<Rightarrow> JNull | Some d \<Rightarrow> JString d)
               else if k = js ''__proto__'' then JRecord r
               else if k \<in> set objectPrototypeKeys then JBuiltin k
               else JUndefined
           | None \<Rightarrow>
               if k = js ''__proto__'' then JObjectPrototype
               else if k \<in> set objectPrototypeKeys then JBuiltin k
               else JUndefined))"

text \<open>
  \<open>visited[k] = r\<close>, with \<open>r\<close> a record: an own property is overwritten; a name found on
  the prototype chain as a writable data property, or not found, becomes an own property;
  for \<open>__proto__\<close>, found as an accessor, the setter runs and makes \<open>r\<close> the prototype.
\<close>

definition setProp :: "visited_obj \<Rightarrow> jsstring \<Rightarrow> visit_record \<Rightarrow> visited_obj" where
  "setProp v k r =
     (case own v k of
        Some r0 \<Rightarrow> v\<lparr>own := (own v)(k \<mapsto> r)\<rparr>
      | None \<Rightarrow>
          if k = js ''__proto__'' then v\<lparr>proto := Some r\<rparr>
          else v\<lparr>own := (own v)(k \<mapsto> r)\<rparr>)"

text \<open>A date counts as true in a condition when it is neither \<open>null\<close> nor the empty string.\<close>

definition truthy :: "jsstring option \<Rightarrow> bool" where
  "truthy d \<longleftrightarrow> d \<noteq> None \<and> d \<noteq> Some []"

text \<open>
  \<open>v && v.done\<close> as a condition: only a record has a \<open>done\<close> property, and on every
  other value the expression is \<open>undefined\<close> or the falsy value itself.
\<close>

definition doneOf :: "jsvalue \<Rightarrow> bool" where
  "doneOf v = (case v of JRecord r \<Rightarrow> done_flag r | _ \<Rightarrow> False)"

text \<open>\<open>stamped && v.date ? v.date : null\<close>, with \<open>stamped\<close> the condition above.\<close>

definition shownDate :: "jsvalue \<Rightarrow> jsstring option" where
  "shownDate v =
     (case v of
        JRecord r \<Rightarrow> if done_flag r \<and> truthy (date r) then date r else None
      | _ \<Rightarrow> None)"

datatype js_error =
  TypeError
| Error jsstring

subsection \<open>The storage module\<close>

text \<open>
  storage.js is not among the sources. Its accessors are modelled from the specification:
  one independently keyed slot for each of the visited map, the selected index and the
  stamps page; a slot is absent on first run, may hold content that does not decode, or
  holds the value last written.
\<close>

datatype 'a slot = Absent | Corrupt | Stored 'a

record storage =
  visitedSlot :: "visited_map slot"
  selectionSlot :: "int slot"
  stampsPageSlot :: "int slot"

text \<open>
  Modelled from the spec: storage.js, \<open>readVisited\<close>. "Corrupt or absent data yields an
  empty map."
\<close>

definition readVisited :: "storage \<Rightarrow> visited_map" where
  "readVisited st = (case visitedSlot st of Stored m \<Rightarrow> m | Absent \<Rightarrow> Map.empty | Corrupt \<Rightarrow> Map.empty)"

text \<open>
  Modelled from the spec: storage.js, \<open>readSelection\<close>. A typed read "tolerant of missing
  or corrupt underlying data by returning a safe default (empty map / index 0)".
\<close>

definition readSelection :: "storage \<Rightarrow> int" where
  "readSelection st = (case selectionSlot st of Stored i \<Rightarrow> i | Absent \<Rightarrow> 0 | Corrupt \<Rightarrow> 0)"

text \<open>
  Modelled from the spec: storage.js, \<open>readStampsPage\<close>. Empty or invalid storage reads
  as page 0.
\<close>

definition readStampsPage :: "storage \<Rightarrow> int" where
  "readStampsPage st = (case stampsPageSlot st of Stored i \<Rightarrow> i | Absent \<Rightarrow> 0 | Corrupt \<Rightarrow> 0)"

text \<open>
  Modelled from the spec: storage.js, the three writers. "Each write is immediately
  durable in the underlying storage", and the three keys are independent.
\<close>

definition writeVisited :: "visited_map \<Rightarrow> storage \<Rightarrow> storage" where
  "writeVisited m st = st\<lparr>visitedSlot := Stored m\<rparr>"

definition writeSelection :: "int \<Rightarrow> storage \<Rightarrow> storage" where
  "writeSelection i st = st\<lparr>selectionSlot := Stored i\<rparr>"

definition writeStampsPage :: "int \<Rightarrow> storage \<Rightarrow> storage" where
  "writeStampsPage i st = st\<lparr>stampsPageSlot := Stored i\<rparr>"

subsection \<open>Session state and what is shown\<close>

datatype list_view =
  NoPoolsLoaded
| Cleared
| PoolRow jsstring bool "jsstring option"
| Message jsstring

record card =
  title :: jsstring
  stamped :: bool
  stampDate :: "jsstring option"
  pop :: bool

text \<open>
  The passport view: the cards put into the grid, and the values \<open>renderStamps\<close> assigns
  to the page label and to the two paging buttons where the page has them.
\<close>

record stamps_view =
  cards :: "card list"
  pageLabel :: "int \<times> int"
  prevDisabled :: bool
  nextDisabled :: bool

text \<open>
  Every read of \<open>pools[selectedIndex]\<close> that reaches the page or the map is logged with the
  index it read, in the order of execution.
\<close>

datatype event =
  ListShows int
| MapPansTo int

record app_state =
  pools :: "pool list"
  visited :: visited_obj
  selectedIndex :: int
  currentStampsPage :: int
  onStampsView :: bool
  mapReady :: bool
  stored :: storage
  hasGrid :: bool
  poolList :: list_view
  passport :: "stamps_view option"
  mapCentre :: "pool option"
  trace :: "event list"

datatype outcome = Returned app_state | Threw js_error app_state

fun final :: "outcome \<Rightarrow> app_state" where
  "final (Returned s) = s"
| "final (Threw e s) = s"

fun thrown :: "outcome \<Rightarrow> js_error option" where
  "thrown (Returned s) = None"
| "thrown (Threw e s) = Some e"

text \<open>Sequencing of statements: the rest does not run once an exception is raised.\<close>

fun and_then :: "outcome \<Rightarrow> (app_state \<Rightarrow> outcome) \<Rightarrow> outcome" where
  "and_then (Returned s) f = f s"
| "and_then (Threw e s) f = Threw e s"

subsection \<open>Rendering the selected pool\<close>

text \<open>
  \<open>renderList\<close>: with no pools, the placeholder; otherwise the row of
  \<open>pools[selectedIndex]\<close>. The list is emptied before the pool is read, and reading
  \<open>p.name\<close> of \<open>undefined\<close> raises a TypeError.
\<close>

definition renderList :: "app_state \<Rightarrow> outcome" where
  "renderList s =
     (if pools s = [] then Returned (s\<lparr>poolList := NoPoolsLoaded\<rparr>)
      else case at_index (pools s) (selectedIndex s) of
        None \<Rightarrow> Threw TypeError (s\<lparr>poolList := Cleared\<rparr>)
      | Some p \<Rightarrow>
          (let v = getProp (visited s) (name p);
               isStamped = doneOf v;
               sDate = shownDate v
           in Returned (s\<lparr>poolList := PoolRow (name p) isStamped sDate,
                          trace := trace s @ [ListShows (selectedIndex s)]\<rparr>)))"

definition panToSelected :: "app_state \<Rightarrow> outcome" where
  "panToSelected s =
     (if \<not> mapReady s \<or> pools s = [] then Returned s
      else case at_index (pools s) (selectedIndex s) of
        None \<Rightarrow> Threw TypeError s
      | Some p \<Rightarrow> Returned (s\<lparr>mapCentre := Some p,
                               trace := trace s @ [MapPansTo (selectedIndex s)]\<rparr>))"

subsection \<open>Selection\<close>

definition selectIndex :: "int \<Rightarrow> app_state \<Rightarrow> outcome" where
  "selectIndex idx s =
     (if pools s = [] then Returned s
      else
        let n = int (length (pools s));
            s1 = s\<lparr>selectedIndex := js_rem (idx + n) n\<rparr>;
            s2 = s1\<lparr>stored := writeSelection (selectedIndex s1) (stored s1)\<rparr>
        in and_then (renderList s2) panToSelected)"

definition moveSelection :: "int \<Rightarrow> app_state \<Rightarrow> outcome" where
  "moveSelection step s = selectIndex (selectedIndex s + step) s"

subsection \<open>The clock\<close>

text \<open>
  \<open>new Date()\<close> reads the clock of the device: an instant, in milliseconds since the
  epoch. \<open>toISOString()\<close> renders that instant in UTC as \<open>YYYY-MM-DDTHH:mm:ss.sssZ\<close>
  (years outside 0..9999 with a sign and six digits), and \<open>split('T')[0]\<close> keeps the
  date. The calendar date of a day number is computed in the proleptic Gregorian
  calendar.
\<close>

definition digit :: "int \<Rightarrow> jschar" where
  "digit d = of_nat (48 + nat d)"

text \<open>The last \<open>w\<close> decimal digits of \<open>n\<close>, with leading zeros.\<close>

fun padded :: "nat \<Rightarrow> int \<Rightarrow> jsstring" where
  "padded 0 n = []"
| "padded (Suc w) n = padded w (n div 10) @ [digit (n mod 10)]"

definition civil_from_days :: "int \<Rightarrow> int \<times> int \<times> int" where
  "civil_from_days z0 =
     (let z = z0 + 719468;
          era = z div 146097;
          doe = z - era * 146097;
          yoe = (doe - doe div 1460 + doe div 36524 - doe div 146096) div 365;
          doy = doe - (365 * yoe + yoe div 4 - yoe div 100);
          mp = (5 * doy + 2) div 153;
          d = doy - (153 * mp + 2) div 5 + 1;
          m = (if mp < 10 then mp + 3 else mp - 9);
          y = yoe + era * 400 + (if m \<le> 2 then 1 else 0)
      in (y, m, d))"

definition isoYear :: "int \<Rightarrow> jsstring" where
  "isoYear y =
     (if 0 \<le> y \<and> y \<le> 9999 then padded 4 y
      else (if y < 0 then js ''-'' else js ''+'') @ padded 6 \<bar>y\<bar>)"

definition isoDate :: "int \<Rightarrow> jsstring" where
  "isoDate ms =
     (case civil_from_days (ms div 86400000) of
        (y, m, d) \<Rightarrow> isoYear y @ js ''-'' @ padded 2 m @ js ''-'' @ padded 2 d)"

subsection \<open>The passport grid\<close>

definition stampsPerPage :: int where
  "stampsPerPage = 3"

definition totalPages :: "nat \<Rightarrow> int" where
  "totalPages n = max 1 \<lceil>real n / real_of_int stampsPerPage\<rceil>"

text \<open>\<open>Array.prototype.slice\<close>: a negative bound counts from the end, both are clipped.\<close>

definition slice :: "'a list \<Rightarrow> int \<Rightarrow> int \<Rightarrow> 'a list" where
  "slice xs a b =
     (let n = int (length xs);
          k = (if a < 0 then max (n + a) 0 else min a n);
          f = (if b < 0 then max (n + b) 0 else min b n)
      in take (nat (f - k)) (drop (nat k) xs))"

definition cardOf :: "visited_obj \<Rightarrow> jsstring option \<Rightarrow> pool \<Rightarrow> card" where
  "cardOf vis popName p =
     (let v = getProp vis (name p);
          isStamped = doneOf v;
          sDate = shownDate v
      in \<lparr>title = name p, stamped = isStamped, stampDate = sDate,
          pop = (popName = Some (name p))\<rparr>)"

text \<open>
  The two tests of \<open>renderStamps\<close> that keep \<open>currentStampsPage\<close> within range, in the
  order of the source.
\<close>

definition clampPage :: "int \<Rightarrow> int \<Rightarrow> int" where
  "clampPage nPages page =
     (let p1 = (if page < 0 then 0 else page)
      in if p1 > nPages - 1 then nPages - 1 else p1)"

definition renderStamps :: "jsstring option \<Rightarrow> app_state \<Rightarrow> outcome" where
  "renderStamps popName s =
     (if \<not> hasGrid s then Returned s
      else
        let nPages = totalPages (length (pools s));
            s1 = s\<lparr>currentStampsPage := clampPage nPages (currentStampsPage s)\<rparr>;
            s2 = s1\<lparr>stored := writeStampsPage (currentStampsPage s1) (stored s1)\<rparr>;
            start = currentStampsPage s2 * stampsPerPage;
            pagePools = slice (pools s2) start (start + stampsPerPage)
        in Returned (s2\<lparr>passport := Some
             \<lparr>cards = map (cardOf (visited s2) popName) pagePools,
              pageLabel = (currentStampsPage s2 + 1, nPages),
              prevDisabled = (currentStampsPage s2 = 0),
              nextDisabled = (currentStampsPage s2 = nPages - 1)\<rparr>\<rparr>))"

definition changeStampsPage :: "int \<Rightarrow> app_state \<Rightarrow> outcome" where
  "changeStampsPage delta s =
     renderStamps None (s\<lparr>currentStampsPage := currentStampsPage s + delta\<rparr>)"

definition setView :: "bool \<Rightarrow> app_state \<Rightarrow> outcome" where
  "setView showStamps s =
     (let s1 = s\<lparr>onStampsView := showStamps\<rparr>
      in if showStamps then renderStamps None s1 else Returned s1)"

subsection \<open>Stamps\<close>

text \<open>
  \<open>now\<close> is the instant the clock shows when the handler runs. What \<open>writeVisited\<close>
  serialises of the visited object is its own entries.
\<close>

definition toggleStamp :: "int \<Rightarrow> jsstring \<Rightarrow> bool \<Rightarrow> app_state \<Rightarrow> outcome" where
  "toggleStamp now nm animate s =
     (let existing = getProp (visited s) nm;
          today = isoDate now;
          s1 = (if doneOf existing
                then s\<lparr>visited := setProp (visited s) nm \<lparr>done_flag = False, date = None\<rparr>\<rparr>
                else s\<lparr>visited := setProp (visited s) nm \<lparr>done_flag = True, date = Some today\<rparr>\<rparr>);
          s2 = s1\<lparr>stored := writeVisited (own (visited s1)) (stored s1)\<rparr>
      in and_then (renderList s2) (renderStamps (if animate then Some nm else None)))"

text \<open>
  \<open>setStampDate\<close>: the first test leaves on the empty string, the second on a string
  that is empty once trimmed.
\<close>

definition setStampDate :: "jsstring \<Rightarrow> jsstring \<Rightarrow> app_state \<Rightarrow> outcome" where
  "setStampDate nm d s =
     (if d = [] then Returned s
      else
        let trimmed = trim d
        in if trimmed = [] then Returned s
           else
             let s1 = s\<lparr>visited := setProp (visited s) nm \<lparr>done_flag = True, date = Some trimmed\<rparr>\<rparr>;
                 s2 = s1\<lparr>stored := writeVisited (own (visited s1)) (stored s1)\<rparr>
             in and_then (renderList s2) (renderStamps (Some nm)))"

text \<open>The handler of the reset button; \<open>confirmed\<close> is the answer to its question.\<close>

definition resetStamps :: "bool \<Rightarrow> app_state \<Rightarrow> outcome" where
  "resetStamps confirmed s =
     (if \<not> confirmed then Returned s
      else
        let s1 = s\<lparr>visited := emptyVisited\<rparr>;
            s2 = s1\<lparr>stored := writeVisited (own (visited s1)) (stored s1)\<rparr>
        in and_then (renderList s2) (renderStamps None))"

subsection \<open>Loading the pools (data.js)\<close>

text \<open>
  What \<open>fetch\<close> resolves to: the success flag, the status code and the outcome of
  decoding the body. A decoded body is a list of records whose coordinates are still raw
  values of type \<open>'v\<close>; the coercion \<open>Number\<close> of the language is the parameter
  \<open>toNumber\<close>. A rejected \<open>fetch\<close> and a body that does not decode are exceptions that
  \<open>loadPools\<close> passes on.
\<close>

record 'v raw_pool =
  rawName :: jsstring
  rawLat :: 'v
  rawLng :: 'v

record 'v response =
  ok :: bool
  status :: nat
  json :: "js_error + 'v raw_pool list"

fun decimal :: "nat \<Rightarrow> jsstring" where
  "decimal n = (if n < 10 then [digit (int n)] else decimal (n div 10) @ [digit (int (n mod 10))])"

declare decimal.simps [simp del]

definition loadPools :: "('v \<Rightarrow> real) \<Rightarrow> js_error + 'v response \<Rightarrow> js_error + pool list" where
  "loadPools toNumber fetched =
     (case fetched of
        Inl e \<Rightarrow> Inl e
      | Inr resp \<Rightarrow>
          if \<not> ok resp
          then Inl (Error (js ''Failed to load pools.json (status '' @ decimal (status resp) @ js '')''))
          else (case json resp of
                  Inl e \<Rightarrow> Inl e
                | Inr raw \<Rightarrow>
                    Inr (map (\<lambda>p. \<lparr>name = rawName p, lat = toNumber (rawLat p),
                                    lng = toNumber (rawLng p)\<rparr>) raw)))"

subsection \<open>Start of the application\<close>

text \<open>
  The module-level initialisers of app.js. The object that \<open>readVisited\<close> returns holds the
  entries read and has the prototype of every plain object.
\<close>

definition initial :: "storage \<Rightarrow> bool \<Rightarrow> app_state" where
  "initial st grid =
     \<lparr>pools = [], visited = \<lparr>own = readVisited st, proto = None\<rparr>, selectedIndex = readSelection st,
      currentStampsPage = readStampsPage st, onStampsView = False, mapReady = False,
      stored = st, hasGrid = grid, poolList = Cleared, passport = None,
      mapCentre = None, trace = []\<rparr>"

definition setupMap :: "app_state \<Rightarrow> app_state" where
  "setupMap s =
     (case pools s of
        [] \<Rightarrow> s
      | p # ps \<Rightarrow> s\<lparr>mapReady := True, mapCentre := Some p\<rparr>)"

text \<open>
  \<open>init\<close>, given what \<open>loadPools\<close> produced. The saved index is put within bounds before
  \<open>setupMap\<close>, \<open>selectIndex\<close> and \<open>setView\<close> run.
\<close>

definition init :: "js_error + pool list \<Rightarrow> app_state \<Rightarrow> outcome" where
  "init loaded s =
     (case loaded of
        Inl err \<Rightarrow> Returned (s\<lparr>poolList := Message (js ''Error loading pools list.'')\<rparr>)
      | Inr ps \<Rightarrow>
          let s1 = s\<lparr>pools := ps\<rparr>
          in if pools s1 = []
             then Returned (s1\<lparr>poolList := Message (js ''No pools configured.'')\<rparr>)
             else
               let s2 = (if selectedIndex s1 < 0 \<or> selectedIndex s1 \<ge> int (length (pools s1))
                         then s1\<lparr>selectedIndex := 0\<rparr> else s1);
                   s3 = setupMap s2
               in and_then (selectIndex (selectedIndex s3) s3) (setView False))"

subsection \<open>Notions of the specification\<close>

text \<open>
  The date on the wall clock of a device whose time zone is \<open>offsetMinutes\<close> east of UTC.
  It is the specification's reading of "today"; app.js does not compute it and it is
  defined here only to be compared with \<open>isoDate\<close>.
\<close>

definition spec_localDate :: "int \<Rightarrow> int \<Rightarrow> jsstring" where
  "spec_localDate now offsetMinutes = isoDate (now + offsetMinutes * 60000)"

text \<open>The invariant of a visit record: a date only on a record that is done.\<close>

definition dateOnlyIfDone :: "visit_record \<Rightarrow> bool" where
  "dateOnlyIfDone r \<longleftrightarrow> (date r \<noteq> None \<longrightarrow> done_flag r)"

text \<open>Every record the visited object holds, as an entry or as its prototype, has it.\<close>

definition visitedInvariant :: "visited_obj \<Rightarrow> bool" where
  "visitedInvariant v \<longleftrightarrow>
     (\<forall>k r. own v k = Some r \<longrightarrow> dateOnlyIfDone r) \<and> (\<forall>r. proto v = Some r \<longrightarrow> dateOnlyIfDone r)"

text \<open>
  The visited maps the program produces: the empty map of a first run, and what
  \<open>toggleStamp\<close>, \<open>setStampDate\<close> and the reset button make of a map produced before, in
  any session state that holds it.
\<close>

inductive produced :: "visited_obj \<Rightarrow> bool" where
  fresh: "produced emptyVisited"
| toggled: "produced (visited s) \<Longrightarrow> produced (visited (final (toggleStamp now nm animate s)))"
| dated: "produced (visited s) \<Longrightarrow> produced (visited (final (setStampDate nm d s)))"
| cleared: "produced (visited s) \<Longrightarrow> produced (visited (final (resetStamps confirmed s)))"

subsection \<open>Sample sessions\<close>

definition emptyStorage :: storage where
  "emptyStorage = \<lparr>visitedSlot = Absent, selectionSlot = Absent, stampsPageSlot = Absent\<rparr>"

definition poolNamed :: "string \<Rightarrow> pool" where
  "poolNamed n = \<lparr>name = js n, lat = 0, lng = 0\<rparr>"

definition fivePools :: "pool list" where
  "fivePools = map poolNamed [''A'', ''B'', ''C'', ''D'', ''E'']"

definition sevenPools :: "pool list" where
  "sevenPools = map poolNamed [''A'', ''B'', ''C'', ''D'', ''E'', ''F'', ''G'']"

text \<open>The session right after a first start on the page, with the given pools loaded.\<close>

definition started :: "pool list \<Rightarrow> app_state" where
  "started ps = final (init (Inr ps) (initial emptyStorage True))"

text \<open>Seven pools loaded, and a stamps page beyond the last one asked for.\<close>

definition requestedFive :: app_state where
  "requestedFive = (started sevenPools)\<lparr>currentStampsPage := 5\<rparr>"

text \<open>A storage whose saved selection is 9, and the module state read from it.\<close>

definition staleSelection :: storage where
  "staleSelection = \<lparr>visitedSlot = Absent, selectionSlot = Stored 9, stampsPageSlot = Corrupt\<rparr>"

text \<open>A response of the server that reports status 404.\<close>

definition notFound :: "real response" where
  "notFound = \<lparr>ok = False, status = 404, json = Inr []\<rparr>"

text \<open>The passport view of the third and last page of seven pools, none of them stamped.\<close>

definition lastOfSeven :: stamps_view where
  "lastOfSeven =
     \<lparr>cards = [\<lparr>title = js ''G'', stamped = False, stampDate = None, pop = False\<rparr>],
      pageLabel = (3, 3), prevDisabled = False, nextDisabled = True\<rparr>"

text \<open>A storage in which nothing decodes.\<close>

definition unreadable :: storage where
  "unreadable = \<lparr>visitedSlot = Corrupt, selectionSlot = Absent, stampsPageSlot = Corrupt\<rparr>"

text \<open>A pool list in which one pool bears the name \<open>__proto__\<close> and another the name \<open>done\<close>.\<close>

definition protoPools :: "pool list" where
  "protoPools = map poolNamed [''__proto__'', ''done'']"

section \<open>Properties\<close>

subsection \<open>Auxiliary facts\<close>

lemma dropWhile_all_iff:
  "(\<forall>c \<in> set (dropWhile P xs). P c) \<longleftrightarrow> dropWhile P xs = []"
proof
  assume all: "\<forall>c \<in> set (dropWhile P xs). P c"
  show "dropWhile P xs = []"
  proof (rule ccontr)
    assume ne: "dropWhile P xs \<noteq> []"
    then have "\<not> P (hd (dropWhile P xs))" by (rule hd_dropWhile)
    moreover from ne have "hd (dropWhile P xs) \<in> set (dropWhile P xs)" by simp
    ultimately show False using all by blast
  qed
next
  assume "dropWhile P xs = []"
  then show "\<forall>c \<in> set (dropWhile P xs). P c" by (auto dest: set_dropWhileD)
qed

lemma trim_empty_iff: "trim d = [] \<longleftrightarrow> (\<forall>c \<in> set d. isWhiteSpace c)"
  by (simp add: trim_def dropWhile_all_iff)

lemma renderList_visited: "visited (final (renderList s)) = visited s"
  by (simp add: renderList_def Let_def split: option.splits)

lemma renderStamps_visited: "visited (final (renderStamps pn s)) = visited s"
  by (simp add: renderStamps_def Let_def)

lemma render_both_visited:
  "visited (final (and_then (renderList s) (renderStamps pn))) = visited s"
  by (cases "renderList s") (use renderList_visited [of s] in \<open>auto simp: renderStamps_visited\<close>)

lemma toggleStamp_visited:
  "visited (final (toggleStamp now nm a s)) =
     setProp (visited s) nm
       (if doneOf (getProp (visited s) nm) then \<lparr>done_flag = False, date = None\<rparr>
        else \<lparr>done_flag = True, date = Some (isoDate now)\<rparr>)"
  by (simp add: toggleStamp_def Let_def render_both_visited)

lemma setStampDate_visited:
  "visited (final (setStampDate nm d s)) =
     (if trim d = [] then visited s
      else setProp (visited s) nm \<lparr>done_flag = True, date = Some (trim d)\<rparr>)"
  by (auto simp: setStampDate_def Let_def render_both_visited trim_def)

lemma resetStamps_visited:
  "visited (final (resetStamps c s)) = (if c then emptyVisited else visited s)"
  by (simp add: resetStamps_def Let_def render_both_visited)

text \<open>A property that was assigned reads back as the record assigned, whatever its name.\<close>

lemma getProp_setProp_same: "getProp (setProp v k r) k = JRecord r"
  by (simp add: getProp_def setProp_def js_def split: option.splits)

text \<open>
  An assignment leaves the other properties as they read, unless it is the assignment to
  \<open>__proto__\<close> that replaces the prototype.
\<close>

lemma getProp_setProp_other:
  "k \<noteq> nm \<Longrightarrow> nm \<noteq> js ''__proto__'' \<or> own v nm \<noteq> None \<Longrightarrow>
   getProp (setProp v nm r) k = getProp v k"
  by (auto simp: getProp_def setProp_def split: option.splits)

lemma js_rem_wraps: "0 < n \<Longrightarrow> - n \<le> i \<Longrightarrow> js_rem (i + n) n = i mod n"
proof -
  assume n: "0 < n" and i: "- n \<le> i"
  show ?thesis
  proof (cases "i + n = 0")
    case True
    then have "i = - n" by simp
    then show ?thesis by (simp add: js_rem_def)
  next
    case False
    with i have "0 < i + n" by simp
    with n have "js_rem (i + n) n = (i + n) mod n" by (simp add: js_rem_def)
    then show ?thesis by simp
  qed
qed

lemma ceiling_thirds: "\<lceil>real n / 3\<rceil> = (int n + 2) div 3"
proof -
  have "\<lceil>real n / 3\<rceil> = - (- int n div 3)"
    using ceiling_divide_eq_div [of "int n" 3] by simp
  also have "\<dots> = (int n + 2) div 3" by presburger
  finally show ?thesis .
qed

lemma totalPages_div: "totalPages n = max 1 ((int n + 2) div 3)"
  by (simp add: totalPages_def stampsPerPage_def ceiling_thirds)

lemma totalPages_nonempty: "0 < n \<Longrightarrow> totalPages n = (int n + 2) div 3"
proof -
  assume "0 < n"
  then have "1 \<le> (int n + 2) div 3" by presburger
  then show ?thesis by (simp add: totalPages_div)
qed

lemma slice_last_page:
  assumes "0 \<le> a" "a \<le> int (length xs)" "int (length xs) \<le> b"
  shows "slice xs a b = drop (nat a) xs"
  using assms by (simp add: slice_def Let_def)

lemma renderStamps_current:
  "hasGrid s \<Longrightarrow>
   currentStampsPage (final (renderStamps pn s)) =
     clampPage (totalPages (length (pools s))) (currentStampsPage s)"
  by (simp add: renderStamps_def Let_def)

lemma renderStamps_stored:
  "hasGrid s \<Longrightarrow>
   stored (final (renderStamps pn s)) =
     writeStampsPage (clampPage (totalPages (length (pools s))) (currentStampsPage s)) (stored s)"
  by (simp add: renderStamps_def Let_def)

subsection \<open>Selection wraps around\<close>

text \<open>
  For an index not below minus the pool count, \<open>selectIndex\<close> selects the index modulo the
  count and raises nothing. This covers every call app.js makes: \<open>moveSelection\<close> passes
  the selected index plus or minus one, and \<open>init\<close> an index within bounds.
\<close>

lemma selectIndex_selected:
  "pools s \<noteq> [] \<Longrightarrow>
   selectedIndex (final (selectIndex i s)) =
     js_rem (i + int (length (pools s))) (int (length (pools s)))"
  by (simp add: selectIndex_def renderList_def panToSelected_def Let_def split: option.splits)

lemma selectIndex_wraps:
  assumes "pools s \<noteq> []" and "- int (length (pools s)) \<le> i"
  shows "selectedIndex (final (selectIndex i s)) = i mod int (length (pools s))"
    and "thrown (selectIndex i s) = None"
proof -
  let ?n = "int (length (pools s))"
  from assms(1) have n: "0 < ?n" by simp
  from js_rem_wraps [OF n assms(2)] have r: "js_rem (i + ?n) ?n = i mod ?n" .
  show "selectedIndex (final (selectIndex i s)) = i mod ?n"
    using assms(1) r by (simp add: selectIndex_selected)
  have "0 \<le> i mod ?n" "i mod ?n < ?n" using n by simp_all
  then show "thrown (selectIndex i s) = None"
    using assms(1) r
    by (simp add: selectIndex_def renderList_def panToSelected_def at_index_def Let_def)
qed

text \<open>
  C1. For a pool count N > 0, \<open>selectIndex(i)\<close> is claimed to select an index in [0, N)
  for every integer i, and the same index for i and i + N. With five pools loaded,
  \<open>selectIndex(-6)\<close> computes \<open>(-6 + 5) % 5\<close>, which is -1 in JavaScript: the selected
  index leaves the range, rendering the list then raises a TypeError on the missing pool,
  and \<open>selectIndex(-6 + 5)\<close> selects 4 instead.
\<close>

theorem selectIndex_below_minus_count:
  "selectedIndex (final (selectIndex (- 6) (started fivePools))) = - 1
   \<and> thrown (selectIndex (- 6) (started fivePools)) = Some TypeError
   \<and> selectedIndex (final (selectIndex (- 6 + 5) (started fivePools))) = 4"
  by code_simp

subsection \<open>Toggling a stamp\<close>

lemma toggleStamp_twice_done:
  "doneOf (getProp (visited (final (toggleStamp n2 nm a2 (final (toggleStamp n1 nm a1 s))))) nm)
     = doneOf (getProp (visited s) nm)"
  by (simp add: toggleStamp_visited getProp_setProp_same doneOf_def)

lemma toggleStamp_not_done_no_date:
  "getProp (visited (final (toggleStamp now nm a s))) nm = JRecord r \<Longrightarrow> \<not> done_flag r \<Longrightarrow>
   date r = None"
  by (auto simp: toggleStamp_visited getProp_setProp_same split: if_splits)

lemma toggleStamp_from_not_visited:
  "\<not> doneOf (getProp (visited s) nm) \<Longrightarrow>
   getProp (visited (final (toggleStamp now nm a s))) nm =
     JRecord \<lparr>done_flag = True, date = Some (isoDate now)\<rparr>"
  by (simp add: toggleStamp_visited getProp_setProp_same)

text \<open>
  C2. Two toggles in a row restore the done flag, and a record that is not done has no
  date (the three lemmas above). A toggle from not visited is claimed to record the date
  of the local clock. The date recorded is the UTC date of the instant: at
  2025-06-01T23:30:00Z, which is 09:30 on 2 June on a device ten hours east of UTC, the
  record of "Bronte Baths" gets the date 2025-06-01, while the wall clock of the device
  shows 2025-06-02.
\<close>

theorem toggleStamp_stamps_utc_date:
  "getProp (visited (final (toggleStamp 1748820600000 (js ''Bronte Baths'') True
       (started [poolNamed ''Bronte Baths'']))))
     (js ''Bronte Baths'') = JRecord \<lparr>done_flag = True, date = Some (js ''2025-06-01'')\<rparr>
   \<and> spec_localDate 1748820600000 600 = js ''2025-06-02''"
  by code_simp

subsection \<open>Setting the date of a stamp\<close>

text \<open>
  C3, as stated: an input that is not blank becomes the date of the record as it was
  given. It does not when it has white space at either end: given \<open>" 2025-06-01"\<close> the
  record does not hold that string.
\<close>

theorem setStampDate_keeps_not_literal:
  "getProp (visited (final (setStampDate (js ''X'') (js '' 2025-06-01'') (started fivePools))))
     (js ''X'') \<noteq> JRecord \<lparr>done_flag = True, date = Some (js '' 2025-06-01'')\<rparr>"
  by code_simp

text \<open>
  C3, amended. For every pool name and every input string: when the input is empty or
  consists of white space only, \<open>setStampDate\<close> returns with the whole state, and so the
  visited map, unchanged; for every other input the record of that pool becomes visited
  with the trimmed input as its date, whatever the string is (no calendar validation).
\<close>

theorem setStampDate_blank_or_trimmed:
  "((\<forall>c \<in> set d. isWhiteSpace c) \<longrightarrow> setStampDate nm d s = Returned s)
   \<and> (\<not> (\<forall>c \<in> set d. isWhiteSpace c) \<longrightarrow>
        getProp (visited (final (setStampDate nm d s))) nm
          = JRecord \<lparr>done_flag = True, date = Some (trim d)\<rparr>)"
proof (intro conjI impI)
  assume "\<forall>c \<in> set d. isWhiteSpace c"
  then have "trim d = []" by (simp add: trim_empty_iff)
  then show "setStampDate nm d s = Returned s" by (simp add: setStampDate_def)
next
  assume "\<not> (\<forall>c \<in> set d. isWhiteSpace c)"
  then have "trim d \<noteq> []" by (simp add: trim_empty_iff)
  then show "getProp (visited (final (setStampDate nm d s))) nm
      = JRecord \<lparr>done_flag = True, date = Some (trim d)\<rparr>"
    by (simp add: setStampDate_visited getProp_setProp_same)
qed

text \<open>Two blanks change nothing; \<open>" 2025-13-45 "\<close>, no date of the calendar, is stored trimmed.\<close>

theorem setStampDate_blank_or_trimmed_witness:
  "list_all isWhiteSpace (js ''  '')
   \<and> setStampDate (js ''X'') (js ''  '') (started fivePools) = Returned (started fivePools)
   \<and> \<not> list_all isWhiteSpace (js '' 2025-13-45 '')
   \<and> getProp (visited (final (setStampDate (js ''X'') (js '' 2025-13-45 '') (started fivePools))))
       (js ''X'') = JRecord \<lparr>done_flag = True, date = Some (js ''2025-13-45'')\<rparr>"
proof -
  have blank: "\<forall>c \<in> set (js ''  ''). isWhiteSpace c" by code_simp
  have nonblank: "\<not> (\<forall>c \<in> set (js '' 2025-13-45 ''). isWhiteSpace c)" by code_simp
  have tr: "trim (js '' 2025-13-45 '') = js ''2025-13-45''" by code_simp
  from setStampDate_blank_or_trimmed [of "js ''  ''" "js ''X''" "started fivePools"] blank
  have a: "setStampDate (js ''X'') (js ''  '') (started fivePools) = Returned (started fivePools)"
    by blast
  from setStampDate_blank_or_trimmed [of "js '' 2025-13-45 ''" "js ''X''" "started fivePools"]
    nonblank
  have b: "getProp (visited (final (setStampDate (js ''X'') (js '' 2025-13-45 '') (started fivePools))))
      (js ''X'') = JRecord \<lparr>done_flag = True, date = Some (trim (js '' 2025-13-45 ''))\<rparr>"
    by blast
  show ?thesis using blank nonblank a b by (simp only: tr list_all_iff simp_thms)
qed

subsection \<open>Pages of the passport\<close>

text \<open>
  C4, as stated: for every pool count P the number of pages is \<open>ceil(P/3)\<close> and the last
  page holds between 1 and 3 pools. With no pools, \<open>renderStamps\<close> shows one page, not
  \<open>ceil(0/3) = 0\<close>, and that page holds no pool.
\<close>

theorem renderStamps_no_pools:
  "map_option (snd \<circ> pageLabel)
     (passport (final (renderStamps None (initial emptyStorage True)))) = Some 1
   \<and> \<lceil>real (length (pools (initial emptyStorage True))) / 3\<rceil> = 0
   \<and> map_option (length \<circ> cards)
       (passport (final (renderStamps None (initial emptyStorage True)))) = Some 0"
  by code_simp

text \<open>
  C4, amended. For every pool count P of at least 1, the stamps view computed by
  \<open>renderStamps\<close> has \<open>ceil(P/3)\<close> pages, and when it shows the last page that page
  contains \<open>P - 3 * (totalPages - 1)\<close> pools, a number between 1 and 3; with no pools it
  has one page, which is empty. The view is the one written to the passport grid of the
  page; its label holds the page shown, counted from 1, and the number of pages.
\<close>

theorem renderStamps_pages:
  assumes "hasGrid s" and "passport (final (renderStamps pn s)) = Some v"
  shows "(pools s \<noteq> [] \<longrightarrow>
            snd (pageLabel v) = \<lceil>real (length (pools s)) / 3\<rceil> \<and>
            (fst (pageLabel v) = snd (pageLabel v) \<longrightarrow>
               int (length (cards v)) = int (length (pools s)) - 3 * (snd (pageLabel v) - 1) \<and>
               1 \<le> length (cards v) \<and> length (cards v) \<le> 3))
       \<and> (pools s = [] \<longrightarrow> snd (pageLabel v) = 1 \<and> cards v = [])"
proof -
  let ?P = "length (pools s)"
  let ?t = "totalPages ?P"
  let ?c = "clampPage ?t (currentStampsPage s)"
  have v: "v = \<lparr>cards = map (cardOf (visited s) pn) (slice (pools s) (?c * 3) (?c * 3 + 3)),
               pageLabel = (?c + 1, ?t), prevDisabled = (?c = 0), nextDisabled = (?c = ?t - 1)\<rparr>"
    using assms by (simp add: renderStamps_def Let_def stampsPerPage_def)
  show ?thesis
  proof (intro conjI impI)
    assume "pools s \<noteq> []"
    then have "0 < ?P" by simp
    then show "snd (pageLabel v) = \<lceil>real ?P / 3\<rceil>"
      by (simp add: v totalPages_nonempty ceiling_thirds)
  next
    assume ne: "pools s \<noteq> []" and last: "fst (pageLabel v) = snd (pageLabel v)"
    then have P: "0 < ?P" by simp
    from last have c: "?c = ?t - 1" by (simp add: v)
    have t': "?t = (int ?P + 2) div 3" using P by (rule totalPages_nonempty)
    have b1: "0 \<le> (?t - 1) * 3" "(?t - 1) * 3 \<le> int ?P" "int ?P \<le> (?t - 1) * 3 + 3"
             "(?t - 1) * 3 < int ?P"
      using P unfolding t' by presburger+
    have sl: "slice (pools s) (?c * 3) (?c * 3 + 3) = drop (nat ((?t - 1) * 3)) (pools s)"
      unfolding c using b1 by (intro slice_last_page) simp_all
    have len: "int (length (cards v)) = int ?P - (?t - 1) * 3"
      using b1 by (simp add: v sl)
    show "int (length (cards v)) = int ?P - 3 * (snd (pageLabel v) - 1)"
      using len by (simp add: v)
    show "1 \<le> length (cards v)" using len b1 by linarith
    show "length (cards v) \<le> 3" using len b1 by linarith
  next
    assume "pools s = []"
    then show "snd (pageLabel v) = 1" by (simp add: v totalPages_def)
  next
    assume "pools s = []"
    then show "cards v = []" by (simp add: v slice_def Let_def)
  qed
qed

text \<open>Seven pools: three pages, and the last of them holds the seventh pool alone.\<close>

theorem renderStamps_pages_witness:
  "hasGrid requestedFive \<and> passport (final (renderStamps None requestedFive)) = Some lastOfSeven
   \<and> pools requestedFive \<noteq> [] \<and> snd (pageLabel lastOfSeven) = \<lceil>real (7::nat) / 3\<rceil>
   \<and> fst (pageLabel lastOfSeven) = snd (pageLabel lastOfSeven)
   \<and> int (length (cards lastOfSeven)) = 7 - 3 * (snd (pageLabel lastOfSeven) - 1)
   \<and> 1 \<le> length (cards lastOfSeven) \<and> length (cards lastOfSeven) \<le> 3"
proof -
  have h: "hasGrid requestedFive" by code_simp
  have v: "passport (final (renderStamps None requestedFive)) = Some lastOfSeven" by code_simp
  have n: "length (pools requestedFive) = 7" by code_simp
  have ne: "pools requestedFive \<noteq> []" using n by auto
  have l: "fst (pageLabel lastOfSeven) = snd (pageLabel lastOfSeven)"
    by (simp add: lastOfSeven_def)
  from renderStamps_pages [OF h v] ne l show ?thesis
    using h v by (simp add: n)
qed

text \<open>
  C5. For every pool count and every current stamps page, also one out of range,
  \<open>renderStamps\<close> on a page that has the passport grid clamps the page into
  \<open>[0, totalPages - 1]\<close>: a negative page becomes 0, a page beyond the last becomes the
  last, any other page stays (it is not wrapped). The clamped value is the one written to
  storage, and reading the stamps page back yields it.
\<close>

theorem renderStamps_clamps:
  assumes "hasGrid s"
  shows "currentStampsPage (final (renderStamps pn s)) =
           (if currentStampsPage s < 0 then 0
            else if currentStampsPage s > totalPages (length (pools s)) - 1
                 then totalPages (length (pools s)) - 1
                 else currentStampsPage s)
         \<and> 0 \<le> currentStampsPage (final (renderStamps pn s))
         \<and> currentStampsPage (final (renderStamps pn s)) \<le> totalPages (length (pools s)) - 1
         \<and> stampsPageSlot (stored (final (renderStamps pn s)))
             = Stored (currentStampsPage (final (renderStamps pn s)))
         \<and> readStampsPage (stored (final (renderStamps pn s)))
             = currentStampsPage (final (renderStamps pn s))"
proof -
  have "1 \<le> totalPages (length (pools s))" by (simp add: totalPages_def)
  then show ?thesis
    using assms
    by (simp add: renderStamps_current renderStamps_stored clampPage_def writeStampsPage_def
        readStampsPage_def Let_def)
qed

text \<open>With seven pools, page 5 becomes page 2, and 2 is what is stored.\<close>

theorem renderStamps_clamps_witness:
  "hasGrid requestedFive \<and> length (pools requestedFive) = 7
   \<and> currentStampsPage requestedFive = 5
   \<and> currentStampsPage (final (renderStamps None requestedFive)) = 2
   \<and> stampsPageSlot (stored (final (renderStamps None requestedFive))) = Stored 2
   \<and> readStampsPage (stored (final (renderStamps None requestedFive))) = 2"
proof -
  have h: "hasGrid requestedFive" by code_simp
  have n: "length (pools requestedFive) = 7" by code_simp
  have c: "currentStampsPage requestedFive = 5" by code_simp
  have t: "totalPages 7 = 3" by code_simp
  from renderStamps_clamps [OF h, of None] show ?thesis
    using h by (simp add: n c t)
qed

subsection \<open>The invariant of visit records\<close>

lemma setProp_invariant:
  "visitedInvariant v \<Longrightarrow> dateOnlyIfDone r \<Longrightarrow> visitedInvariant (setProp v k r)"
  by (auto simp: visitedInvariant_def setProp_def split: option.splits if_splits)

lemma visitedInvariant_kept:
  assumes "visitedInvariant (visited s)"
  shows "visitedInvariant (visited (final (toggleStamp now nm a s)))"
    and "visitedInvariant (visited (final (setStampDate nm d s)))"
    and "visitedInvariant (visited (final (resetStamps c s)))"
proof -
  show "visitedInvariant (visited (final (toggleStamp now nm a s)))"
    using assms by (simp add: toggleStamp_visited setProp_invariant dateOnlyIfDone_def)
  show "visitedInvariant (visited (final (setStampDate nm d s)))"
    using assms by (simp add: setStampDate_visited setProp_invariant dateOnlyIfDone_def)
  show "visitedInvariant (visited (final (resetStamps c s)))"
    using assms by (simp add: resetStamps_visited visitedInvariant_def emptyVisited_def)
qed

text \<open>The record a stamp operation writes has the invariant, whatever the map held.\<close>

lemma written_record_invariant:
  shows "getProp (visited (final (toggleStamp now nm a s))) nm = JRecord r \<Longrightarrow> dateOnlyIfDone r"
    and "trim d \<noteq> [] \<Longrightarrow> getProp (visited (final (setStampDate nm d s))) nm = JRecord r' \<Longrightarrow>
           dateOnlyIfDone r'"
  by (auto simp: toggleStamp_visited setStampDate_visited getProp_setProp_same dateOnlyIfDone_def
      split: if_splits)

text \<open>
  C6. Every visited map produced by the mutations of the program (\<open>toggleStamp\<close>,
  \<open>setStampDate\<close>, reset), starting from the empty map, satisfies the invariant: each of
  its records has a date only if its done flag is true.
\<close>

theorem produced_invariant: "produced v \<Longrightarrow> visitedInvariant v"
proof (induction rule: produced.induct)
  case fresh
  show ?case by (simp add: visitedInvariant_def emptyVisited_def)
next
  case (toggled s now nm animate)
  then show ?case
    by (simp add: toggleStamp_visited setProp_invariant dateOnlyIfDone_def)
next
  case (dated s nm d)
  then show ?case
    by (simp add: setStampDate_visited setProp_invariant dateOnlyIfDone_def)
next
  case (cleared s confirmed)
  then show ?case
    by (simp add: resetStamps_visited visitedInvariant_def emptyVisited_def)
qed

text \<open>A date is set on pool A and the stamp then toggled off: the record loses its date.\<close>

theorem produced_invariant_witness:
  "produced (visited (final (toggleStamp 0 (js ''A'') False
      (final (setStampDate (js ''A'') (js ''2025-06-01'') (initial emptyStorage True))))))
   \<and> visitedInvariant (visited (final (toggleStamp 0 (js ''A'') False
      (final (setStampDate (js ''A'') (js ''2025-06-01'') (initial emptyStorage True))))))
   \<and> getProp (visited (final (toggleStamp 0 (js ''A'') False
      (final (setStampDate (js ''A'') (js ''2025-06-01'') (initial emptyStorage True))))))
      (js ''A'') = JRecord \<lparr>done_flag = False, date = None\<rparr>"
proof -
  have "visited (initial emptyStorage True) = emptyVisited"
    by (simp add: initial_def emptyStorage_def readVisited_def emptyVisited_def)
  then have "produced (visited (initial emptyStorage True))" by (simp add: produced.fresh)
  then have p: "produced (visited (final (toggleStamp 0 (js ''A'') False
      (final (setStampDate (js ''A'') (js ''2025-06-01'') (initial emptyStorage True))))))"
    by (intro produced.toggled produced.dated)
  have v: "getProp (visited (final (toggleStamp 0 (js ''A'') False
      (final (setStampDate (js ''A'') (js ''2025-06-01'') (initial emptyStorage True))))))
      (js ''A'') = JRecord \<lparr>done_flag = False, date = None\<rparr>" by code_simp
  from produced_invariant [OF p] p v show ?thesis by simp
qed

subsection \<open>Reading the storage\<close>

text \<open>
  C7. Reading any of the three persisted keys when its slot of the storage is empty or
  holds invalid data returns the safe default: the empty map for the visited map, index 0
  for the selection, page 0 for the stamps page. The three readers are total functions
  into the value type: there is no error for them to raise.
\<close>

theorem reads_default:
  "((visitedSlot st = Absent \<or> visitedSlot st = Corrupt) \<longrightarrow> readVisited st = Map.empty)
   \<and> ((selectionSlot st = Absent \<or> selectionSlot st = Corrupt) \<longrightarrow> readSelection st = 0)
   \<and> ((stampsPageSlot st = Absent \<or> stampsPageSlot st = Corrupt) \<longrightarrow> readStampsPage st = 0)"
  by (auto simp: readVisited_def readSelection_def readStampsPage_def)

theorem reads_default_witness:
  "visitedSlot unreadable = Corrupt \<and> selectionSlot unreadable = Absent
   \<and> stampsPageSlot unreadable = Corrupt
   \<and> readVisited unreadable = Map.empty \<and> readSelection unreadable = 0
   \<and> readStampsPage unreadable = 0"
proof -
  have s: "visitedSlot unreadable = Corrupt" "selectionSlot unreadable = Absent"
    "stampsPageSlot unreadable = Corrupt" by (simp_all add: unreadable_def)
  from reads_default [of unreadable] s show ?thesis by simp
qed

subsection \<open>A failed load\<close>

lemma unat_digit: "0 \<le> a \<Longrightarrow> a < 10 \<Longrightarrow> unat (digit a) = 48 + nat a"
proof -
  assume "0 \<le> a" "a < 10"
  then have "48 + nat a < 2 ^ 16" by simp
  then have "(48 + nat a) mod 2 ^ LENGTH(16) = 48 + nat a" by simp
  then show ?thesis unfolding digit_def by (simp only: unat_of_nat)
qed

lemma digit_inj:
  assumes "0 \<le> a" "a < 10" "0 \<le> b" "b < 10" "digit a = digit b"
  shows "a = b"
proof -
  from assms(5) have "unat (digit a) = unat (digit b)" by simp
  with unat_digit [OF assms(1,2)] unat_digit [OF assms(3,4)] have "nat a = nat b" by simp
  with assms(1,3) show ?thesis by simp
qed

lemma decimal_nonempty: "decimal n \<noteq> []"
  by (subst decimal.simps) simp

text \<open>The decimal numeral determines the number.\<close>

lemma decimal_inj: "decimal a = decimal b \<Longrightarrow> a = b"
proof (induction a arbitrary: b rule: decimal.induct)
  case (1 n)
  have ln: "last (decimal n) = digit (int (n mod 10))"
    by (subst decimal.simps) (simp add: mod_less)
  have lb: "last (decimal b) = digit (int (b mod 10))"
    by (subst decimal.simps) (simp add: mod_less)
  have bn: "butlast (decimal n) = (if n < 10 then [] else decimal (n div 10))"
    by (subst decimal.simps) simp
  have bb: "butlast (decimal b) = (if b < 10 then [] else decimal (b div 10))"
    by (subst decimal.simps) simp
  from 1(2) ln lb have "digit (int (n mod 10)) = digit (int (b mod 10))" by simp
  then have m: "n mod 10 = b mod 10"
    using digit_inj [of "int (n mod 10)" "int (b mod 10)"] by simp
  from 1(2) bn bb have bl: "(if n < 10 then [] else decimal (n div 10))
      = (if b < 10 then [] else decimal (b div 10))" by simp
  show ?case
  proof (cases "n < 10")
    case True
    with bl have "b < 10"
      by (auto split: if_splits simp: decimal_nonempty decimal_nonempty [symmetric])
    with True m show ?thesis by simp
  next
    case False
    with bl have b: "\<not> b < 10"
      by (auto split: if_splits simp: decimal_nonempty decimal_nonempty [symmetric])
    with False bl have "decimal (n div 10) = decimal (b div 10)" by simp
    with 1(1) False have "n div 10 = b div 10" by simp
    with m show ?thesis by (metis div_mult_mod_eq)
  qed
qed

text \<open>
  C8. When the fetch of the pool data reports a status that is not a success,
  \<open>loadPools\<close> fails: its result is the error whose message holds that status code in
  decimal, and no pool list. The status can be read off the error: two such failures with
  the same error had the same status.
\<close>

theorem loadPools_status:
  assumes "\<not> ok resp"
  shows "loadPools toNumber (Inr resp) =
           Inl (Error (js ''Failed to load pools.json (status '' @ decimal (status resp) @ js '')''))
       \<and> (\<forall>resp'. \<not> ok resp' \<and> loadPools toNumber (Inr resp') = loadPools toNumber (Inr resp)
             \<longrightarrow> status resp' = status resp)"
  using assms by (auto simp: loadPools_def dest: decimal_inj)

theorem loadPools_status_witness:
  "\<not> ok notFound \<and> status notFound = 404
   \<and> loadPools (\<lambda>v. v) (Inr notFound) = Inl (Error (js ''Failed to load pools.json (status 404)''))"
proof -
  have h: "\<not> ok notFound" by (simp add: notFound_def)
  have st: "status notFound = 404" by (simp add: notFound_def)
  have d: "decimal 404 = js ''404''" by code_simp
  from loadPools_status [OF h, of "\<lambda>v. v"] show ?thesis
    using h st by (simp add: d js_def)
qed

subsection \<open>Start with a stale selection\<close>

text \<open>
  C9. At startup, a selection index that is out of range for the loaded pool list
  (negative, or not below the pool count) is reset to 0 before anything is rendered from
  it. When the list is not empty, the only reads of \<open>pools[selectedIndex]\<close> that \<open>init\<close>
  adds to the trace, by the list and by the map, read index 0, and 0 is the selection
  left and stored; when the list is empty \<open>init\<close> returns before the test and renders
  nothing from the selection. Nothing is raised. Until \<open>init\<close> runs, the selected index
  is the one read from storage when the module was loaded.
\<close>

theorem init_resets_selection:
  assumes "selectedIndex s < 0 \<or> int (length ps) \<le> selectedIndex s"
  shows "(ps \<noteq> [] \<longrightarrow>
            selectedIndex (final (init (Inr ps) s)) = 0
          \<and> trace (final (init (Inr ps) s)) = trace s @ [ListShows 0, MapPansTo 0]
          \<and> selectionSlot (stored (final (init (Inr ps) s))) = Stored 0)
       \<and> (ps = [] \<longrightarrow> trace (final (init (Inr ps) s)) = trace s)
       \<and> thrown (init (Inr ps) s) = None"
proof (cases ps)
  case Nil
  then show ?thesis by (simp add: init_def)
next
  case (Cons p ps')
  then show ?thesis
    using assms
    by (simp add: init_def setupMap_def selectIndex_def renderList_def panToSelected_def
        setView_def at_index_def js_rem_def writeSelection_def Let_def)
qed

text \<open>The storage holds selection 9, and five pools load.\<close>

theorem init_resets_selection_witness:
  "fivePools \<noteq> [] \<and> selectedIndex (initial staleSelection True) = 9
   \<and> int (length fivePools) \<le> selectedIndex (initial staleSelection True)
   \<and> selectedIndex (final (init (Inr fivePools) (initial staleSelection True))) = 0
   \<and> trace (final (init (Inr fivePools) (initial staleSelection True)))
       = [ListShows 0, MapPansTo 0]
   \<and> thrown (init (Inr fivePools) (initial staleSelection True)) = None"
proof -
  have ne: "fivePools \<noteq> []" by (simp add: fivePools_def)
  have sel: "selectedIndex (initial staleSelection True) = 9" by code_simp
  have len: "int (length fivePools) = 5" by code_simp
  have tr: "trace (initial staleSelection True) = []" by (simp add: initial_def)
  have out: "selectedIndex (initial staleSelection True) < 0
     \<or> int (length fivePools) \<le> selectedIndex (initial staleSelection True)"
    by (simp add: sel len)
  from init_resets_selection [OF out] show ?thesis
    using ne by (simp add: sel len tr)
qed

subsection \<open>What a stamp operation leaves alone\<close>

text \<open>
  For a name other than \<open>__proto__\<close>, \<open>toggleStamp\<close> and \<open>setStampDate\<close> leave every other
  property of the visited object as it read, and the name gets an entry of its own,
  whether or not it is the name of a loaded pool.
\<close>

lemma stamp_frame_other_names:
  assumes "nm \<noteq> js ''__proto__''"
  shows "k \<noteq> nm \<Longrightarrow> getProp (visited (final (toggleStamp now nm a s))) k = getProp (visited s) k"
    and "k \<noteq> nm \<Longrightarrow> getProp (visited (final (setStampDate nm d s))) k = getProp (visited s) k"
    and "own (visited (final (toggleStamp now nm a s))) nm \<noteq> None"
    and "trim d \<noteq> [] \<Longrightarrow> own (visited (final (setStampDate nm d s))) nm \<noteq> None"
proof -
  show "k \<noteq> nm \<Longrightarrow> getProp (visited (final (toggleStamp now nm a s))) k = getProp (visited s) k"
    using assms by (simp add: toggleStamp_visited getProp_setProp_other)
  show "k \<noteq> nm \<Longrightarrow> getProp (visited (final (setStampDate nm d s))) k = getProp (visited s) k"
    using assms by (simp add: setStampDate_visited getProp_setProp_other)
  show "own (visited (final (toggleStamp now nm a s))) nm \<noteq> None"
    using assms by (simp add: toggleStamp_visited setProp_def split: option.splits)
  show "trim d \<noteq> [] \<Longrightarrow> own (visited (final (setStampDate nm d s))) nm \<noteq> None"
    using assms by (simp add: setStampDate_visited setProp_def split: option.splits)
qed

text \<open>
  C10. For every visited map and every pool name, \<open>toggleStamp(name)\<close> and
  \<open>setStampDate(name, date)\<close> are claimed to change at most the entry of that name, and to
  create a record for it. With a pool named \<open>__proto__\<close>, the assignment
  \<open>visited[name] = {...}\<close> runs the setter of \<open>Object.prototype\<close> and makes the record the
  prototype of the visited object: no entry \<open>__proto__\<close> is created, and the names \<open>done\<close>
  and \<open>date\<close>, which read \<open>undefined\<close> before, now read the fields of that record.
\<close>

theorem stamp_on_proto_name:
  "getProp (visited (started protoPools)) (js ''done'') = JUndefined
   \<and> getProp (visited (started protoPools)) (js ''date'') = JUndefined
   \<and> getProp (visited (final (toggleStamp 1748820600000 (js ''__proto__'') True
         (started protoPools)))) (js ''done'') = JBool True
   \<and> getProp (visited (final (toggleStamp 1748820600000 (js ''__proto__'') True
         (started protoPools)))) (js ''date'') = JString (js ''2025-06-01'')
   \<and> own (visited (final (toggleStamp 1748820600000 (js ''__proto__'') True
         (started protoPools)))) (js ''__proto__'') = None
   \<and> getProp (visited (final (setStampDate (js ''__proto__'') (js ''2025-06-01'')
         (started protoPools)))) (js ''done'') = JBool True
   \<and> own (visited (final (setStampDate (js ''__proto__'') (js ''2025-06-01'')
         (started protoPools)))) (js ''__proto__'') = None"
  by code_simp

end
